theory Spec2Isabelle
  imports Complex_Main
begin

section \<open>JavaScript values\<close>

text \<open>
  JavaScript numbers are doubles. Numbers that only ever hold integers (indices, rounded
  counters, pixel widths of the DOM) are modelled as \<open>int\<close>; scroll positions, times and
  tween values are modelled as \<open>real\<close>, which leaves the rounding error of doubles out of
  the model.
\<close>

text \<open>The \<open>??\<close> operator on an optional field: \<open>options?.x ?? d\<close>.\<close>

definition nullish :: "'a option \<Rightarrow> 'a \<Rightarrow> 'a" where
  "nullish x d = (case x of Some v \<Rightarrow> v | None \<Rightarrow> d)"


text \<open>\<open>Math.round\<close>: the nearest integer, a tie going up (\<open>Math.round(2.5)\<close> is 3).\<close>

definition Math_round :: "real \<Rightarrow> int" where
  "Math_round x = \<lfloor>x + 1 / 2\<rfloor>"

text \<open>
  An integral number interpolated into a template literal (\<open>`${n}`\<close>): its decimal
  digits, with a minus sign when negative.
\<close>

definition digit_char :: "nat \<Rightarrow> char" where
  "digit_char d = ''0123456789'' ! d"

fun nat_digits :: "nat \<Rightarrow> string" where
  "nat_digits n =
     (if n < 10 then [digit_char n] else nat_digits (n div 10) @ [digit_char (n mod 10)])"

declare nat_digits.simps [simp del]

definition Number_toString :: "int \<Rightarrow> string" where
  "Number_toString n = (if n < 0 then ''-'' @ nat_digits (nat (- n)) else nat_digits (nat n))"

text \<open>
  \<open>Number.prototype.toLocaleString()\<close> formats with the locale of the host, so the
  counters below take it as a parameter. \<open>toLocaleString_enUS\<close> is what a host whose
  locale is en-US computes for an integer: the decimal digits in groups of three,
  separated by commas.
\<close>

function group3 :: "string \<Rightarrow> string" where
  "group3 ds =
     (if length ds \<le> 3 then ds
      else group3 (take (length ds - 3) ds) @ '','' @ drop (length ds - 3) ds)"
  by pat_completeness auto
termination
  by (relation "measure length") auto

declare group3.simps [simp del]

definition toLocaleString_enUS :: "int \<Rightarrow> string" where
  "toLocaleString_enUS n =
     (if n < 0 then ''-'' @ group3 (nat_digits (nat (- n))) else group3 (nat_digits (nat n)))"

section \<open>Character carousel (components/CharactersSection.tsx)\<close>















section \<open>Navigation bar (components/Navbar.tsx)\<close>

text \<open>
  The scroll listener of the navigation bar. \<open>window.scrollY\<close> may be fractional, so
  positions are \<open>real\<close>. \<open>lastScrollY\<close> is the \<open>useRef\<close> cell that remembers the
  position of the previous scroll event.
\<close>

record navbar =
  isScrolled :: bool
  isHidden :: bool
  mobileOpen :: bool
  lastScrollY :: real

definition navbar_init :: navbar where
  "navbar_init = \<lparr>isScrolled = False, isHidden = False, mobileOpen = False, lastScrollY = 0\<rparr>"

definition handleScroll :: "real \<Rightarrow> navbar \<Rightarrow> navbar" where
  "handleScroll currentY s =
     (let s1 = s\<lparr>isScrolled := currentY > 50\<rparr>;
          s2 = (if currentY > lastScrollY s1 \<and> currentY > 200
                then s1\<lparr>isHidden := True, mobileOpen := False\<rparr>
                else s1\<lparr>isHidden := False\<rparr>)
      in s2\<lparr>lastScrollY := currentY\<rparr>)"

section \<open>Numeric counters (lib/animations.ts, MangaSection.tsx, ImpactSection.tsx)\<close>

text \<open>
  A counter tweens the field \<open>value\<close> of a private object from 0 to the target with
  \<open>gsap.to(obj, {value: target, duration, ease: "power2.out", onUpdate})\<close> and writes the
  element's text in \<open>onUpdate\<close>. The tween engine is GSAP, a dependency of the repository
  that is not among its sources; the model takes from the library only what the call
  names: a tween at ratio \<open>r\<close> of its duration holds \<open>from + (to - from) * ease r\<close>, the
  ease named \<open>power2.out\<close> is \<open>1 - (1 - r)\<^sup>3\<close>, and the ratio is the elapsed share of
  the duration, kept within 0 and 1 (a tween without duration is complete at once).
  Played in reverse, the tween passes through the same values.
\<close>

definition power2_out :: "real \<Rightarrow> real" where
  "power2_out r = 1 - (1 - r) ^ 3"

definition tween_ratio :: "real \<Rightarrow> real \<Rightarrow> real" where
  "tween_ratio duration t = (if duration \<le> 0 then 1 else min 1 (max 0 (t / duration)))"

text \<open>\<open>obj.value\<close> when the tween has played for \<open>t\<close> seconds.\<close>

definition obj_value :: "real \<Rightarrow> real \<Rightarrow> real \<Rightarrow> real" where
  "obj_value target duration t = 0 + (target - 0) * power2_out (tween_ratio duration t)"

text \<open>
  \<open>counterAnimation(element, target, options)\<close> of lib/animations.ts. Of its options
  the record keeps the duration, the suffix, the prefix and the start position of the
  trigger (the trigger element is left out).
\<close>

record counter_options =
  opt_duration :: "real option"
  opt_suffix :: "string option"
  opt_prefix :: "string option"
  opt_start :: "string option"

definition counterAnimation_onUpdate ::
    "(int \<Rightarrow> string) \<Rightarrow> counter_options \<Rightarrow> real \<Rightarrow> string" where
  "counterAnimation_onUpdate toLocaleString options value =
     (let suffix = nullish (opt_suffix options) '''';
          prefix = nullish (opt_prefix options) ''''
      in prefix @ toLocaleString (Math_round value) @ suffix)"

text \<open>The text of the element when the tween has played for \<open>t\<close> seconds.\<close>

definition counterAnimation_frame ::
    "(int \<Rightarrow> string) \<Rightarrow> real \<Rightarrow> counter_options \<Rightarrow> real \<Rightarrow> string" where
  "counterAnimation_frame toLocaleString target options t =
     counterAnimation_onUpdate toLocaleString options
       (obj_value target (nullish (opt_duration options) 2) t)"

text \<open>
  The inline counters of MangaSection (duration 2, no prefix, no locale formatting) and
  of ImpactSection (duration 2.5, prefix and suffix, locale formatting). Their target is
  the \<open>data-target\<close> attribute, which the markup writes from the tables below.
\<close>

definition manga_onUpdate :: "string \<Rightarrow> real \<Rightarrow> string" where
  "manga_onUpdate suffix value = Number_toString (Math_round value) @ suffix"

definition manga_frame :: "real \<Rightarrow> string \<Rightarrow> real \<Rightarrow> string" where
  "manga_frame target suffix t = manga_onUpdate suffix (obj_value target 2 t)"

definition impact_onUpdate :: "(int \<Rightarrow> string) \<Rightarrow> string \<Rightarrow> string \<Rightarrow> real \<Rightarrow> string" where
  "impact_onUpdate toLocaleString prefix suffix value =
     prefix @ toLocaleString (Math_round value) @ suffix"

definition impact_frame ::
    "(int \<Rightarrow> string) \<Rightarrow> real \<Rightarrow> string \<Rightarrow> string \<Rightarrow> real \<Rightarrow> string" where
  "impact_frame toLocaleString target prefix suffix t =
     impact_onUpdate toLocaleString prefix suffix (obj_value target (5 / 2) t)"

record stat =
  stat_label :: string
  stat_value :: int
  stat_prefix :: string
  stat_suffix :: string

definition MANGA_STATS :: "stat list" where
  "MANGA_STATS =
    [\<lparr>stat_label = ''Volumes'', stat_value = 23, stat_prefix = '''', stat_suffix = ''''\<rparr>,
     \<lparr>stat_label = ''Chapters'', stat_value = 205, stat_prefix = '''', stat_suffix = ''''\<rparr>,
     \<lparr>stat_label = ''Years Running'', stat_value = 4, stat_prefix = '''', stat_suffix = ''''\<rparr>]"

definition IMPACT_STATS :: "stat list" where
  "IMPACT_STATS =
    [\<lparr>stat_label = ''Box Office'', stat_value = 500, stat_prefix = ''$'', stat_suffix = ''M+''\<rparr>,
     \<lparr>stat_label = ''Countries'', stat_value = 120, stat_prefix = '''', stat_suffix = ''+''\<rparr>,
     \<lparr>stat_label = ''Awards'', stat_value = 35, stat_prefix = '''', stat_suffix = ''+''\<rparr>,
     \<lparr>stat_label = ''Fans Worldwide'', stat_value = 100, stat_prefix = '''', stat_suffix = ''M+''\<rparr>]"

section \<open>Smooth scroll provider (components/LenisProvider.tsx)\<close>

text \<open>
  The provider's effect creates a Lenis instance, subscribes \<open>ScrollTrigger.update\<close> to its
  scroll event, adds an anonymous callback \<open>(time) => lenis.raf(time * 1000)\<close> to GSAP's
  ticker and calls \<open>gsap.ticker.lagSmoothing(0)\<close>; its cleanup calls \<open>lenis.destroy()\<close> and
  clears the ref. The state these calls act on is the ticker (its listeners and its lag
  smoothing) and the Lenis instances.

  The ticker and Lenis are dependencies that are not among the sources. The model keeps
  of them what the provider's calls rely on, as the libraries document it:
  \<^item> \<open>ticker.add(f)\<close> registers \<open>f\<close> (a function registered before is moved to the end),
    and only \<open>ticker.remove(f)\<close>, which the provider never calls, takes it out again;
  \<^item> \<open>ticker.lagSmoothing(threshold, adjustedLag)\<close>: when more than \<open>threshold\<close>
    milliseconds pass between two ticks, the ticker's time advances by \<open>adjustedLag\<close>
    only (500 and 33 unless set); a threshold of 0 switches this off;
  \<^item> a tick whose time has passed the ticker's next-frame time is a frame: it calls
    every listener with the ticker's time in seconds and sets the next-frame time (the
    ticker caps the frame rate at 240 per second, a gap of 1000/240 ms; after a frame
    that came a gap or more late, the next one is due 4 ms later); a tick that comes
    before the next-frame time calls no listener;
  \<^item> \<open>lenis.raf(time)\<close> advances the scroll animation by the time since its previous
    call, in seconds.
\<close>

text \<open>
  A ticker listener. The only listeners of this repository are the provider's closures;
  \<open>LenisRaf n\<close> is the closure over the \<open>n\<close>-th Lenis instance. Every run of the effect
  creates a new closure, which is a different function for \<open>ticker.add\<close>.
\<close>

datatype listener = LenisRaf nat

record ticker =
  listeners :: "listener list"
  lagThreshold :: "real option"
  adjustedLag :: real
  startTime :: real
  lastUpdate :: real
  gap :: real
  nextTime :: real
  frame :: nat

text \<open>
  \<open>lagThreshold = None\<close> stands for an infinite threshold. Times are in milliseconds,
  counted from the moment the ticker started.
\<close>

definition ticker_default :: ticker where
  "ticker_default =
     \<lparr>listeners = [], lagThreshold = Some 500, adjustedLag = 33, startTime = 0,
      lastUpdate = 0, gap = 1000 / 240, nextTime = 1000 / 240, frame = 0\<rparr>"

definition ticker_add :: "listener \<Rightarrow> ticker \<Rightarrow> ticker" where
  "ticker_add f tk = tk\<lparr>listeners := remove1 f (listeners tk) @ [f]\<rparr>"

definition lagSmoothing :: "real \<Rightarrow> ticker \<Rightarrow> ticker" where
  "lagSmoothing threshold tk =
     (if threshold = 0 then tk\<lparr>lagThreshold := None, adjustedLag := 33\<rparr>
      else tk\<lparr>lagThreshold := Some threshold, adjustedLag := min 33 threshold\<rparr>)"

definition lagging :: "real option \<Rightarrow> real \<Rightarrow> bool" where
  "lagging threshold elapsed = (case threshold of None \<Rightarrow> False | Some c \<Rightarrow> c < elapsed)"

text \<open>
  A Lenis instance: the options the provider passes (\<open>duration: 1.2\<close>,
  \<open>smoothWheel: true\<close>, the easing function below), whether \<open>ScrollTrigger.update\<close> is
  subscribed to its scroll event, whether it was destroyed, the time of its last \<open>raf\<close>
  and the list of the steps (in seconds) its scroll animation was advanced by.
\<close>

record lenis =
  lenis_duration :: real
  smoothWheel :: bool
  onScroll :: bool
  destroyed :: bool
  raf_time :: "real option"
  advanced :: "real list"

text \<open>The easing the provider passes: \<open>(t) => Math.min(1, 1.001 - Math.pow(2, -10 * t))\<close>.\<close>

definition lenis_easing :: "real \<Rightarrow> real" where
  "lenis_easing t = min 1 (1001 / 1000 - 2 powr (- 10 * t))"

definition new_Lenis :: lenis where
  "new_Lenis =
     \<lparr>lenis_duration = 12 / 10, smoothWheel = True, onScroll = False, destroyed = False,
      raf_time = None, advanced = []\<rparr>"

text \<open>\<open>raf(time)\<close>: \<open>deltaTime = time - (this.time || time)\<close>, then advance by it.\<close>

definition lenis_raf :: "real \<Rightarrow> lenis \<Rightarrow> lenis" where
  "lenis_raf time l =
     (let deltaTime =
        (case raf_time l of None \<Rightarrow> 0 | Some t0 \<Rightarrow> if t0 = 0 then 0 else time - t0)
      in l\<lparr>raf_time := Some time, advanced := advanced l @ [deltaTime * (1 / 1000)]\<rparr>)"

definition lenis_destroy :: "lenis \<Rightarrow> lenis" where
  "lenis_destroy l = l\<lparr>onScroll := False, destroyed := True\<rparr>"

record page =
  gsap_ticker :: ticker
  instances :: "lenis list"
  lenisRef :: "nat option"

definition page_init :: page where
  "page_init = \<lparr>gsap_ticker = ticker_default, instances = [], lenisRef = None\<rparr>"

text \<open>
  The body of the provider's \<open>useEffect\<close>, statement by statement. The instance it
  creates is the one at index \<open>length (instances w)\<close>; the cleanup it returns closes over
  that instance, which \<open>LenisProvider_cleanup\<close> takes as its first argument.
\<close>

definition LenisProvider_effect :: "page \<Rightarrow> page" where
  "LenisProvider_effect w =
     (let n = length (instances w);
          w1 = w\<lparr>instances := instances w @ [new_Lenis]\<rparr>;
          w2 = w1\<lparr>lenisRef := Some n\<rparr>;
          w3 = w2\<lparr>instances := (instances w2)[n := (instances w2 ! n)\<lparr>onScroll := True\<rparr>]\<rparr>;
          w4 = w3\<lparr>gsap_ticker := ticker_add (LenisRaf n) (gsap_ticker w3)\<rparr>
      in w4\<lparr>gsap_ticker := lagSmoothing 0 (gsap_ticker w4)\<rparr>)"

definition LenisProvider_cleanup :: "nat \<Rightarrow> page \<Rightarrow> page" where
  "LenisProvider_cleanup n w =
     (let w1 = w\<lparr>instances := (instances w)[n := lenis_destroy (instances w ! n)]\<rparr>
      in w1\<lparr>lenisRef := None\<rparr>)"

fun call_listener :: "real \<Rightarrow> page \<Rightarrow> listener \<Rightarrow> page" where
  "call_listener time w (LenisRaf n) =
     (if n < length (instances w)
      then w\<lparr>instances := (instances w)[n := lenis_raf (time * 1000) (instances w ! n)]\<rparr>
      else w)"

text \<open>A tick of the ticker at the clock reading \<open>now\<close> (milliseconds).\<close>

definition ticker_tick :: "real \<Rightarrow> page \<Rightarrow> page" where
  "ticker_tick now w =
     (let tk = gsap_ticker w;
          elapsed = now - lastUpdate tk;
          st = (if lagging (lagThreshold tk) elapsed \<or> elapsed < 0
                then startTime tk + (elapsed - adjustedLag tk) else startTime tk);
          lu = lastUpdate tk + elapsed;
          time = lu - st;
          overlap = time - nextTime tk;
          tk1 = tk\<lparr>startTime := st, lastUpdate := lu\<rparr>
      in if 0 < overlap
         then foldl (call_listener (time / 1000))
                (w\<lparr>gsap_ticker :=
                     tk1\<lparr>nextTime :=
                           nextTime tk + overlap
                             + (if gap tk \<le> overlap then 4 else gap tk - overlap),
                         frame := frame tk + 1\<rparr>\<rparr>)
                (listeners tk)
         else w\<lparr>gsap_ticker := tk1\<rparr>)"

text \<open>
  The step, in seconds, of the latest advance of the \<open>n\<close>-th instance (of an instance
  that exists and was advanced at least once).
\<close>

definition last_advance :: "page \<Rightarrow> nat \<Rightarrow> real" where
  "last_advance w n = last (advanced (instances w ! n))"

section \<open>Scroll-triggered descriptors (lib/animations.ts and the sections)\<close>

text \<open>
  The helpers build a tween and hand it to GSAP's ScrollTrigger with a start position,
  and either \<open>toggleActions\<close> or a \<open>scrub\<close> setting. The records keep the settings that
  decide when and how the tween is played; the animated properties themselves (opacity,
  offsets, clip paths) are left out. A \<open>toggleActions\<close> string names, in this order, what
  happens on entering the region, on leaving it at its end, on entering it again from
  its end, and on leaving it backwards past its start.
\<close>

datatype toggleAction =
  Play | Pause | Resume | Reset | Restart | Complete | Reverse | NoAction

record toggleActions =
  onEnter :: toggleAction
  onLeave :: toggleAction
  onEnterBack :: toggleAction
  onLeaveBack :: toggleAction

text \<open>The string \<open>"play none none reverse"\<close>.\<close>

definition play_none_none_reverse :: toggleActions where
  "play_none_none_reverse =
     \<lparr>onEnter = Play, onLeave = NoAction, onEnterBack = NoAction, onLeaveBack = Reverse\<rparr>"

text \<open>What ScrollTrigger uses when a trigger gives no \<open>toggleActions\<close>:
  \<open>"play none none none"\<close>.\<close>

definition play_none_none_none :: toggleActions where
  "play_none_none_none =
     \<lparr>onEnter = Play, onLeave = NoAction, onEnterBack = NoAction, onLeaveBack = NoAction\<rparr>"

record toggle_tween =
  tg_duration :: real
  tg_delay :: real
  tg_ease :: string
  tg_start :: string
  tg_toggleActions :: "toggleActions option"

record fadeInUp_options =
  fu_duration :: "real option"
  fu_delay :: "real option"
  fu_start :: "string option"

definition fadeInUp :: "fadeInUp_options \<Rightarrow> toggle_tween" where
  "fadeInUp options =
     \<lparr>tg_duration = nullish (fu_duration options) 1,
      tg_delay = nullish (fu_delay options) 0,
      tg_ease = ''power3.out'',
      tg_start = nullish (fu_start options) ''top 85%'',
      tg_toggleActions = Some play_none_none_reverse\<rparr>"

record staggerFadeIn_options =
  sf_duration :: "real option"
  sf_start :: "string option"

definition staggerFadeIn :: "staggerFadeIn_options \<Rightarrow> toggle_tween" where
  "staggerFadeIn options =
     \<lparr>tg_duration = nullish (sf_duration options) (8 / 10),
      tg_delay = 0,
      tg_ease = ''power3.out'',
      tg_start = nullish (sf_start options) ''top 85%'',
      tg_toggleActions = Some play_none_none_reverse\<rparr>"

record maskReveal_options =
  mr_duration :: "real option"
  mr_delay :: "real option"
  mr_start :: "string option"

definition maskReveal :: "maskReveal_options \<Rightarrow> toggle_tween" where
  "maskReveal options =
     \<lparr>tg_duration = nullish (mr_duration options) (12 / 10),
      tg_delay = nullish (mr_delay options) 0,
      tg_ease = ''power4.inOut'',
      tg_start = nullish (mr_start options) ''top 80%'',
      tg_toggleActions = Some play_none_none_reverse\<rparr>"

text \<open>The trigger of \<open>counterAnimation\<close>.\<close>

definition counterAnimation_trigger :: "counter_options \<Rightarrow> toggle_tween" where
  "counterAnimation_trigger options =
     \<lparr>tg_duration = nullish (opt_duration options) 2,
      tg_delay = 0,
      tg_ease = ''power2.out'',
      tg_start = nullish (opt_start options) ''top 80%'',
      tg_toggleActions = Some play_none_none_reverse\<rparr>"

text \<open>
  The separator animation of ImpactSection (MangaSection, WorldSection and
  TimelineSection have the same one with their own start): \<open>gsap.from\<close> with a trigger
  that gives a start and no \<open>toggleActions\<close>.
\<close>

definition impact_separator :: toggle_tween where
  "impact_separator =
     \<lparr>tg_duration = 15 / 10, tg_delay = 0, tg_ease = ''power4.inOut'', tg_start = ''top 70%'',
      tg_toggleActions = None\<rparr>"

definition toggleActions_of :: "toggle_tween \<Rightarrow> toggleActions" where
  "toggleActions_of tw = nullish (tg_toggleActions tw) play_none_none_none"

text \<open>
  The scrubbed descriptors. \<open>scrub\<close> is \<open>true\<close> or a number of seconds in the sources.
\<close>

datatype scrub = ScrubTrue | ScrubSeconds real

record scrub_tween =
  sw_to :: real
  sw_ease :: string
  sw_start :: string
  sw_end :: string
  sw_scrub :: scrub
  sw_pin :: bool

record parallax_options =
  px_yPercent :: "real option"
  px_start :: "string option"
  px_end :: "string option"

definition parallax :: "parallax_options \<Rightarrow> scrub_tween" where
  "parallax options =
     \<lparr>sw_to = nullish (px_yPercent options) (- 20),
      sw_ease = ''none'',
      sw_start = nullish (px_start options) ''top bottom'',
      sw_end = nullish (px_end options) ''bottom top'',
      sw_scrub = ScrubSeconds 1,
      sw_pin = False\<rparr>"

record slowZoom_options =
  sz_scale :: "real option"
  sz_duration :: "real option"

definition slowZoom :: "slowZoom_options \<Rightarrow> scrub_tween" where
  "slowZoom options =
     \<lparr>sw_to = nullish (sz_scale options) (115 / 100),
      sw_ease = ''none'',
      sw_start = ''top top'',
      sw_end = ''bottom top'',
      sw_scrub = ScrubSeconds 2,
      sw_pin = False\<rparr>"

record horizontalScroll_options =
  hs_ease :: "string option"
  hs_end :: "string option"

text \<open>
  \<open>horizontalScroll(container, scrollContent, options)\<close>, given \<open>container.clientWidth\<close>
  and \<open>scrollContent.scrollWidth\<close> (integers in the DOM).
\<close>

definition horizontalScroll :: "int \<Rightarrow> int \<Rightarrow> horizontalScroll_options \<Rightarrow> scrub_tween" where
  "horizontalScroll clientWidth content_scrollWidth options =
     (let scrollWidth = content_scrollWidth - clientWidth
      in \<lparr>sw_to = - real_of_int scrollWidth,
          sw_ease = nullish (hs_ease options) ''none'',
          sw_start = ''top top'',
          sw_end = nullish (hs_end options) (''+='' @ Number_toString scrollWidth),
          sw_scrub = ScrubSeconds 1,
          sw_pin = True\<rparr>)"

text \<open>The darkening overlay of WorldSection: \<open>scrub: true\<close>.\<close>

definition world_overlay :: scrub_tween where
  "world_overlay =
     \<lparr>sw_to = 8 / 10, sw_ease = ''none'', sw_start = ''top 50%'', sw_end = ''bottom top'',
      sw_scrub = ScrubTrue, sw_pin = False\<rparr>"

section \<open>The trigger scheduler\<close>

text \<open>
  Modelled from the spec: the scheduler that maps the scroll offset to the state of a
  toggle-mode descriptor is GSAP's ScrollTrigger, which is not among the sources. The
  spec (section 4.2): a toggle descriptor "plays forward once the start condition is
  satisfied while scrolling down, and reverses when the scroll position moves back above
  the start condition". The model resolves a region to its start and end offsets, tracks
  on which side of them the scroll offset lies, and applies the action that the
  descriptor's \<open>toggleActions\<close> names for each boundary passed. \<open>progress\<close> is where the
  playhead of the tween comes to rest after the action: 0 is the state before the
  animation, 1 the state after it.
\<close>

datatype position = Before | Inside | After

text \<open>
  Modelled from the spec: on which side of a region's boundaries a scroll offset lies
  (the region is the range of offsets from its start condition to its end condition).
\<close>

definition position_of :: "real \<Rightarrow> real \<Rightarrow> real \<Rightarrow> position" where
  "position_of start stop offset =
     (if offset < start then Before else if offset < stop then Inside else After)"

text \<open>
  Modelled from the spec: where the playhead rests after an action ("plays forward",
  "reverses"); the actions that start or stop nothing leave it where it is.
\<close>

fun apply_action :: "toggleAction \<Rightarrow> real \<Rightarrow> real" where
  "apply_action Play p = 1"
| "apply_action Restart p = 1"
| "apply_action Complete p = 1"
| "apply_action Reverse p = 0"
| "apply_action Reset p = 0"
| "apply_action Pause p = p"
| "apply_action Resume p = p"
| "apply_action NoAction p = p"

text \<open>
  Modelled from the spec: the actions due when the offset moves from one side to
  another, in the order of the boundaries passed.
\<close>

fun crossing :: "toggleActions \<Rightarrow> position \<Rightarrow> position \<Rightarrow> toggleAction list" where
  "crossing ta Before Inside = [onEnter ta]"
| "crossing ta Before After = [onEnter ta, onLeave ta]"
| "crossing ta Inside After = [onLeave ta]"
| "crossing ta After Inside = [onEnterBack ta]"
| "crossing ta After Before = [onEnterBack ta, onLeaveBack ta]"
| "crossing ta Inside Before = [onLeaveBack ta]"
| "crossing ta Before Before = []"
| "crossing ta Inside Inside = []"
| "crossing ta After After = []"

record toggle_state =
  pos :: position
  progress :: real

definition toggle_init :: toggle_state where
  "toggle_init = \<lparr>pos = Before, progress = 0\<rparr>"

text \<open>
  Modelled from the spec: one recomputation of the scheduler, at a new scroll offset
  (section 4.2: recomputation happens once per update of the scroll state).
\<close>

definition toggle_step ::
    "toggleActions \<Rightarrow> real \<Rightarrow> real \<Rightarrow> toggle_state \<Rightarrow> real \<Rightarrow> toggle_state" where
  "toggle_step ta start stop s offset =
     (let p = position_of start stop offset
      in \<lparr>pos = p,
          progress = foldl (\<lambda>x a. apply_action a x) (progress s) (crossing ta (pos s) p)\<rparr>)"

text \<open>The states after each offset of a sequence, and the state after all of them.\<close>

fun toggle_trace ::
    "toggleActions \<Rightarrow> real \<Rightarrow> real \<Rightarrow> toggle_state \<Rightarrow> real list \<Rightarrow> toggle_state list" where
  "toggle_trace ta start stop s [] = []"
| "toggle_trace ta start stop s (offset # offsets) =
     toggle_step ta start stop s offset
       # toggle_trace ta start stop (toggle_step ta start stop s offset) offsets"

definition toggle_run :: "toggleActions \<Rightarrow> real \<Rightarrow> real \<Rightarrow> real list \<Rightarrow> toggle_state" where
  "toggle_run ta start stop offsets = foldl (toggle_step ta start stop) toggle_init offsets"

text \<open>How often a sequence of progress values goes up from one value to the next.\<close>

fun rises :: "real list \<Rightarrow> nat" where
  "rises (a # b # r) = (if a < b then 1 else 0) + rises (b # r)"
| "rises r = 0"

text \<open>
  Three notions for the proofs. With \<open>play none none reverse\<close> a state is settled when
  its progress is 0 before the start boundary and 1 past it; \<open>side\<close> is the progress
  that belongs to an offset. With \<open>play none none none\<close> a state is latched: its
  progress is 1 unless the offset has always been before the start boundary.
\<close>

definition settled :: "real \<Rightarrow> toggle_state \<Rightarrow> bool" where
  "settled start s = (progress s = (if pos s = Before then 0 else 1))"

definition side :: "real \<Rightarrow> real \<Rightarrow> real" where
  "side start offset = (if offset < start then 0 else 1)"

definition latched :: "toggle_state \<Rightarrow> bool" where
  "latched s = ((pos s = Before \<or> progress s = 1) \<and> 0 \<le> progress s \<and> progress s \<le> 1)"

text \<open>\<open>gsap.utils.clamp(0, 1, x)\<close>.\<close>

definition clamp01 :: "real \<Rightarrow> real" where
  "clamp01 x = max 0 (min 1 x)"

text \<open>
  Modelled from the spec: the progress of a scrub region is computed by ScrollTrigger,
  which is not among the sources; by the spec (section 4.2) it is the clamped fraction
  \<open>clamp((offset - start)/(end - start), 0, 1)\<close>, and on a degenerate range, where the
  fraction would divide by zero, it is 1, fully activated (section 7).
\<close>

definition region_progress :: "real \<Rightarrow> real \<Rightarrow> real \<Rightarrow> real" where
  "region_progress start stop offset =
     (if stop = start then 1 else clamp01 ((offset - start) / (stop - start)))"

text \<open>
  How the playhead of a scrubbed tween follows the region's progress is decided by the
  \<open>scrub\<close> setting, which ScrollTrigger documents so: \<open>true\<close> links the playhead directly
  to the progress; a number is the time in seconds the playhead takes to catch up. The
  catching up is a tween from the playhead's position \<open>p0\<close> at the time the progress
  changed to the new progress, with the ease GSAP names \<open>expo\<close> (its ease-out form);
  \<open>elapsed\<close> is the time in seconds since the change. GSAP's \<open>expo\<close> ease-in is
  \<open>2 ** (10 * (q - 1)) * q + q ** 6 * (1 - q)\<close>, and the ease-out of an ease is
  \<open>1 - in (1 - r)\<close>; halfway through, the ease-out is at 125/128.
\<close>

definition expo_in :: "real \<Rightarrow> real" where
  "expo_in q = 2 powr (10 * (q - 1)) * q + q ^ 6 * (1 - q)"

definition catch_up_ease :: "real \<Rightarrow> real" where
  "catch_up_ease r = 1 - expo_in (1 - r)"

definition playhead :: "scrub \<Rightarrow> real \<Rightarrow> real \<Rightarrow> real \<Rightarrow> real" where
  "playhead sc p0 target elapsed =
     (case sc of
        ScrubTrue \<Rightarrow> target
      | ScrubSeconds secs \<Rightarrow>
          if secs \<le> elapsed then target
          else p0 + (target - p0) * catch_up_ease (elapsed / secs))"

section \<open>Carousel: the active index stays a valid subscript\<close>















section \<open>Navigation bar: when the bar hides\<close>

text \<open>
  Claim C10. A scroll event hides the navigation bar exactly when the observed position
  is both greater than the previously recorded position and greater than 200; in that
  case the mobile menu is closed as well; on every other scroll event the bar is shown
  (and the mobile menu is left as it was). The event records the observed position for
  the next comparison.
\<close>

theorem navbar_hidden_iff:
  "isHidden (handleScroll y s) = (lastScrollY s < y \<and> 200 < y)
   \<and> mobileOpen (handleScroll y s) = (if lastScrollY s < y \<and> 200 < y then False else mobileOpen s)
   \<and> lastScrollY (handleScroll y s) = y"
  by (simp add: handleScroll_def Let_def)

section \<open>Counters: what is rendered\<close>

lemma power2_out_range: "0 \<le> r \<Longrightarrow> r \<le> 1 \<Longrightarrow> 0 \<le> power2_out r \<and> power2_out r \<le> 1"
proof -
  assume r: "0 \<le> r" "r \<le> 1"
  then have q: "0 \<le> 1 - r" "1 - r \<le> 1" by simp_all
  have "(1 - r) ^ 3 \<le> 1" using q by (simp add: power_le_one)
  moreover have "0 \<le> (1 - r) ^ 3" using q by simp
  ultimately show ?thesis by (simp add: power2_out_def)
qed

lemma tween_ratio_range: "0 \<le> tween_ratio d t \<and> tween_ratio d t \<le> 1"
  by (simp add: tween_ratio_def)

lemma obj_value_range:
  assumes "0 \<le> target"
  shows "0 \<le> obj_value target d t \<and> obj_value target d t \<le> target"
proof -
  have e: "0 \<le> power2_out (tween_ratio d t)" "power2_out (tween_ratio d t) \<le> 1"
    using power2_out_range tween_ratio_range by simp_all
  have "target * power2_out (tween_ratio d t) \<le> target * 1"
    using assms e(2) by (rule_tac mult_left_mono)
  then show ?thesis using assms e(1) by (simp add: obj_value_def)
qed

lemma Math_round_range:
  "0 \<le> x \<Longrightarrow> x \<le> real_of_int n \<Longrightarrow> 0 \<le> Math_round x \<and> Math_round x \<le> n"
  unfolding Math_round_def by linarith

lemma Math_round_of_int: "Math_round (real_of_int n) = n"
  unfolding Math_round_def by linarith

lemma obj_value_end: "d \<le> t \<Longrightarrow> obj_value target d t = target"
  by (simp add: obj_value_def tween_ratio_def power2_out_def)

lemma obj_value_start: "0 < d \<Longrightarrow> obj_value target d 0 = 0"
  by (simp add: obj_value_def tween_ratio_def power2_out_def)

text \<open>
  The texts the counters of the two sections end on (ImpactSection in an en-US host).
\<close>

lemma manga_final_texts:
  "map (\<lambda>s. manga_frame (real_of_int (stat_value s)) (stat_suffix s) 2) MANGA_STATS
     = [''23'', ''205'', ''4'']"
  using Math_round_of_int [of 23] Math_round_of_int [of 205] Math_round_of_int [of 4]
  by (simp add: MANGA_STATS_def manga_frame_def manga_onUpdate_def obj_value_end
      Number_toString_def nat_digits.simps digit_char_def)

lemma impact_final_texts:
  "map (\<lambda>s. impact_frame toLocaleString_enUS (real_of_int (stat_value s))
              (stat_prefix s) (stat_suffix s) (5 / 2)) IMPACT_STATS
     = [''$500M+'', ''120+'', ''35+'', ''100M+'']"
  using Math_round_of_int [of 500] Math_round_of_int [of 120] Math_round_of_int [of 35]
    Math_round_of_int [of 100]
  by (simp add: IMPACT_STATS_def impact_frame_def impact_onUpdate_def obj_value_end
      toLocaleString_enUS_def nat_digits.simps digit_char_def group3.simps)

text \<open>
  Claim C1 as stated has every counter render \<open>prefix + round(value) + suffix\<close>.
  \<open>counterAnimation\<close> formats the rounded value with \<open>toLocaleString()\<close>: in an en-US host
  and with the target 1234 and no prefix or suffix, its text after full activation is
  \<open>1,234\<close>, which is not \<open>prefix + round(value) + suffix\<close>.
\<close>

theorem counter_text_counterexample:
  "counterAnimation_frame toLocaleString_enUS 1234
      \<lparr>opt_duration = None, opt_suffix = None, opt_prefix = None, opt_start = None\<rparr> 2 = ''1,234''
   \<and> counterAnimation_frame toLocaleString_enUS 1234
      \<lparr>opt_duration = None, opt_suffix = None, opt_prefix = None, opt_start = None\<rparr> 2
     \<noteq> '''' @ Number_toString (Math_round (obj_value 1234 2 2)) @ ''''"
  using Math_round_of_int [of 1234]
  by (simp add: counterAnimation_frame_def counterAnimation_onUpdate_def nullish_def
      obj_value_end toLocaleString_enUS_def nat_digits.simps digit_char_def group3.simps
      Number_toString_def)

text \<open>
  Claim C1, amended. For a target that is a non-negative integer, at every time \<open>t\<close> of a
  tween of any duration \<open>d\<close> the rounded value is an integer between 0 and the target; it
  is 0 when the tween starts and the target once the duration has passed. The Manga
  counter renders that integer in decimal followed by the suffix; the Impact counter and
  \<open>counterAnimation\<close> render the prefix, the integer as the host's \<open>toLocaleString\<close>
  formats it, and the suffix. For the target 205 with no prefix and no suffix the text
  after full activation is exactly \<open>205\<close>, for the Manga counter and, in an en-US host,
  for \<open>counterAnimation\<close>.
\<close>

theorem counter_text_amended:
  assumes "0 \<le> target"
  shows "0 \<le> Math_round (obj_value (real_of_int target) d t)
     \<and> Math_round (obj_value (real_of_int target) d t) \<le> target
     \<and> (0 < d \<longrightarrow> Math_round (obj_value (real_of_int target) d 0) = 0)
     \<and> (d \<le> t \<longrightarrow> Math_round (obj_value (real_of_int target) d t) = target)
     \<and> manga_frame (real_of_int target) suffix t
         = Number_toString (Math_round (obj_value (real_of_int target) 2 t)) @ suffix
     \<and> impact_frame toLocaleString (real_of_int target) prefix suffix t
         = prefix @ toLocaleString (Math_round (obj_value (real_of_int target) (5 / 2) t))
             @ suffix
     \<and> counterAnimation_frame toLocaleString (real_of_int target) options t
         = nullish (opt_prefix options) ''''
           @ toLocaleString
               (Math_round (obj_value (real_of_int target) (nullish (opt_duration options) 2) t))
           @ nullish (opt_suffix options) ''''
     \<and> manga_frame 205 '''' 2 = ''205''
     \<and> counterAnimation_frame toLocaleString_enUS 205
          \<lparr>opt_duration = None, opt_suffix = None, opt_prefix = None, opt_start = None\<rparr> 2 = ''205''"
proof -
  have r: "0 \<le> obj_value (real_of_int target) d t"
          "obj_value (real_of_int target) d t \<le> real_of_int target"
    using obj_value_range [of "real_of_int target" d t] assms by simp_all
  have rng: "0 \<le> Math_round (obj_value (real_of_int target) d t)"
            "Math_round (obj_value (real_of_int target) d t) \<le> target"
    using Math_round_range [OF r] by simp_all
  have st: "0 < d \<longrightarrow> Math_round (obj_value (real_of_int target) d 0) = 0"
    by (simp add: obj_value_start Math_round_def)
  have en: "d \<le> t \<longrightarrow> Math_round (obj_value (real_of_int target) d t) = target"
    by (simp add: obj_value_end Math_round_of_int)
  have m: "manga_frame 205 '''' 2 = ''205''"
    using Math_round_of_int [of 205]
    by (simp add: manga_frame_def manga_onUpdate_def obj_value_end
        Number_toString_def nat_digits.simps digit_char_def)
  have c: "counterAnimation_frame toLocaleString_enUS 205
          \<lparr>opt_duration = None, opt_suffix = None, opt_prefix = None, opt_start = None\<rparr> 2 = ''205''"
    using Math_round_of_int [of 205]
    by (simp add: counterAnimation_frame_def counterAnimation_onUpdate_def nullish_def
        obj_value_end toLocaleString_enUS_def nat_digits.simps digit_char_def group3.simps)
  show ?thesis
    using rng st en m c
    by (simp add: manga_frame_def manga_onUpdate_def impact_frame_def impact_onUpdate_def
        counterAnimation_frame_def counterAnimation_onUpdate_def)
qed

theorem counter_text_amended_witness:
  "(0::int) \<le> 205
   \<and> 0 \<le> Math_round (obj_value 205 2 1) \<and> Math_round (obj_value 205 2 1) \<le> 205
   \<and> Math_round (obj_value 205 2 1) = 179
   \<and> Math_round (obj_value 205 2 0) = 0
   \<and> Math_round (obj_value 205 2 2) = 205"
proof -
  have h: "(0::int) \<le> 205" by simp
  have v: "Math_round (obj_value 205 2 1) = 179"
    by (simp add: obj_value_def tween_ratio_def power2_out_def Math_round_def power3_eq_cube)
  show ?thesis
    using counter_text_amended [OF h, of 2 1] counter_text_amended [OF h, of 2 0]
      counter_text_amended [OF h, of 2 2] v
    by simp
qed

section \<open>Smooth scroll provider: mounting, unmounting, stalls\<close>

lemma mounted:
  "LenisProvider_effect page_init =
     \<lparr>gsap_ticker = \<lparr>listeners = [LenisRaf 0], lagThreshold = None, adjustedLag = 33,
                      startTime = 0, lastUpdate = 0, gap = 25 / 6, nextTime = 25 / 6,
                      frame = 0\<rparr>,
      instances = [new_Lenis\<lparr>onScroll := True\<rparr>], lenisRef = Some 0\<rparr>"
  by (simp add: LenisProvider_effect_def page_init_def Let_def ticker_add_def
      ticker_default_def lagSmoothing_def)

lemma unmounted:
  "LenisProvider_cleanup 0 (LenisProvider_effect page_init) =
     \<lparr>gsap_ticker = \<lparr>listeners = [LenisRaf 0], lagThreshold = None, adjustedLag = 33,
                      startTime = 0, lastUpdate = 0, gap = 25 / 6, nextTime = 25 / 6,
                      frame = 0\<rparr>,
      instances = [new_Lenis\<lparr>onScroll := False, destroyed := True\<rparr>], lenisRef = None\<rparr>"
  unfolding mounted
  by (simp add: LenisProvider_cleanup_def Let_def lenis_destroy_def)




text \<open>
  For comparison: a ticker that keeps the library's lag smoothing (the effect without its
  last statement) hands the instance 33 ms for the same stall of ten seconds.
\<close>

lemma default_lag_smoothing_clamps:
  "last_advance
     (ticker_tick 10016 (ticker_tick 16
        \<lparr>gsap_ticker = ticker_add (LenisRaf 0) ticker_default,
         instances = [new_Lenis], lenisRef = Some 0\<rparr>)) 0 = 33 / 1000"
  by (simp add: ticker_add_def ticker_default_def ticker_tick_def Let_def lagging_def
      lenis_raf_def new_Lenis_def last_advance_def)

text \<open>
  Claim C5 says that disposing the provider releases its frame-loop subscription and
  that no smooth-scroll work runs on a frame afterwards. The cleanup destroys the
  instance and clears the ref, and does not call \<open>gsap.ticker.remove\<close>: after mounting
  and unmounting, the closure is still a listener of the ticker, and the next tick calls
  \<open>raf\<close> on the destroyed instance; mounting again (as React's development mode does)
  leaves two listeners.
\<close>

theorem cleanup_keeps_ticker_listener:
  "listeners (gsap_ticker (LenisProvider_cleanup 0 (LenisProvider_effect page_init)))
     = [LenisRaf 0]
   \<and> destroyed (instances (LenisProvider_cleanup 0 (LenisProvider_effect page_init)) ! 0)
   \<and> advanced (instances (LenisProvider_cleanup 0 (LenisProvider_effect page_init)) ! 0) = []
   \<and> advanced (instances
        (ticker_tick 16 (LenisProvider_cleanup 0 (LenisProvider_effect page_init))) ! 0) = [0]
   \<and> listeners (gsap_ticker
        (LenisProvider_effect (LenisProvider_cleanup 0 (LenisProvider_effect page_init))))
     = [LenisRaf 0, LenisRaf 1]"
proof -
  have tick: "advanced (instances
        (ticker_tick 16 (LenisProvider_cleanup 0 (LenisProvider_effect page_init))) ! 0) = [0]"
    unfolding unmounted
    by (simp add: ticker_tick_def Let_def lagging_def lenis_raf_def new_Lenis_def)
  have again: "listeners (gsap_ticker
        (LenisProvider_effect (LenisProvider_cleanup 0 (LenisProvider_effect page_init))))
     = [LenisRaf 0, LenisRaf 1]"
    unfolding unmounted
    by (simp add: LenisProvider_effect_def Let_def ticker_add_def lagSmoothing_def)
  show ?thesis
    using tick again by (simp add: unmounted new_Lenis_def)
qed




section \<open>Toggle descriptors: play on entering, reverse on leaving backwards\<close>

lemma step_reverse:
  assumes "settled start s"
  shows "progress (toggle_step play_none_none_reverse start stop s offset) = side start offset"
    and "settled start (toggle_step play_none_none_reverse start stop s offset)"
  using assms
  by (cases "pos s";
      simp add: settled_def toggle_step_def position_of_def play_none_none_reverse_def
        side_def)+

lemma trace_reverse:
  "settled start s \<Longrightarrow>
   map progress (toggle_trace play_none_none_reverse start stop s offsets)
     = map (side start) offsets"
  by (induction offsets arbitrary: s) (simp_all add: step_reverse)

lemma foldl_reverse:
  "settled start s \<Longrightarrow> offsets \<noteq> [] \<Longrightarrow>
   progress (foldl (toggle_step play_none_none_reverse start stop) s offsets)
     = side start (last offsets)"
proof (induction offsets arbitrary: s)
  case Nil
  then show ?case by simp
next
  case (Cons a offsets)
  show ?case
  proof (cases "offsets = []")
    case True
    then show ?thesis using Cons.prems by (simp add: step_reverse)
  next
    case False
    then show ?thesis
      using Cons.IH [OF step_reverse(2) [OF Cons.prems(1)] False] by simp
  qed
qed

lemma sorted_le_last: "sorted (y # ys) \<Longrightarrow> y \<le> last (y # ys)"
  by (cases "ys = []") simp_all

lemma rises_sorted:
  "sorted (x # ys) \<Longrightarrow>
   rises (side start x # map (side start) ys)
     = (if x < start \<and> ys \<noteq> [] \<and> start \<le> last ys then 1 else 0)"
proof (induction ys arbitrary: x)
  case Nil
  then show ?case by simp
next
  case (Cons y ys)
  have xy: "x \<le> y" and s: "sorted (y # ys)" using Cons.prems by simp_all
  note ly = sorted_le_last [OF s]
  note IH = Cons.IH [OF s]
  show ?case
  proof (cases "y < start")
    case True
    then have "x < start" using xy by simp
    then show ?thesis using True IH by (simp add: side_def)
  next
    case False
    then have "start \<le> last (y # ys)" using ly by simp
    then show ?thesis using False IH by (simp add: side_def)
  qed
qed

lemma rises_from_zero:
  assumes "sorted ys"
  shows "rises (0 # map (side start) ys) = (if ys \<noteq> [] \<and> start \<le> last ys then 1 else 0)"
proof (cases ys)
  case Nil
  then show ?thesis by simp
next
  case (Cons y zs)
  have s: "sorted (y # zs)" using assms Cons by simp
  note ly = sorted_le_last [OF s]
  show ?thesis
  proof (cases "y < start")
    case True
    then show ?thesis using rises_sorted [OF s, of start] Cons by (simp add: side_def)
  next
    case False
    then have "start \<le> last (y # zs)" using ly by simp
    then show ?thesis using rises_sorted [OF s, of start] Cons False by (simp add: side_def)
  qed
qed

text \<open>With \<open>play none none none\<close> the progress never goes back.\<close>

lemma step_none:
  assumes "latched s"
  shows "progress (toggle_step play_none_none_none start stop s offset)
           = max (progress s) (side start offset)"
    and "latched (toggle_step play_none_none_none start stop s offset)"
  using assms
  by (cases "pos s";
      simp add: latched_def toggle_step_def position_of_def play_none_none_none_def
        side_def max_def)+

lemma step_none_stays:
  "progress s = 1 \<Longrightarrow> progress (toggle_step play_none_none_none start stop s offset) = 1"
  by (cases "pos s"; cases "position_of start stop offset";
      simp add: toggle_step_def play_none_none_none_def)

lemma foldl_none_stays:
  "progress s = 1 \<Longrightarrow>
   progress (foldl (toggle_step play_none_none_none start stop) s offsets) = 1"
  by (induction offsets arbitrary: s) (simp_all add: step_none_stays)

lemma side_mono: "x \<le> y \<Longrightarrow> side start x \<le> side start y"
  by (simp add: side_def)

lemma trace_none:
  "latched s \<Longrightarrow> sorted offsets \<Longrightarrow> (\<forall>y \<in> set offsets. progress s \<le> side start y) \<Longrightarrow>
   map progress (toggle_trace play_none_none_none start stop s offsets)
     = map (side start) offsets"
proof (induction offsets arbitrary: s)
  case Nil
  then show ?case by simp
next
  case (Cons a offsets)
  let ?s = "toggle_step play_none_none_none start stop s a"
  have le: "progress s \<le> side start a" using Cons.prems(3) by simp
  have p: "progress ?s = side start a"
    using step_none(1) [OF Cons.prems(1), of start stop a] le by (simp add: max_def)
  have l: "latched ?s" by (rule step_none(2) [OF Cons.prems(1)])
  have s: "sorted offsets" and a: "\<forall>y \<in> set offsets. a \<le> y"
    using Cons.prems(2) by simp_all
  have "\<forall>y \<in> set offsets. progress ?s \<le> side start y"
    using a p side_mono by simp
  from Cons.IH [OF l s this] p show ?case by simp
qed

lemma trace_Nil_iff: "toggle_trace ta start stop s offsets = [] \<longleftrightarrow> offsets = []"
  by (cases offsets) simp_all

lemma foldl_trace_last:
  "offsets \<noteq> [] \<Longrightarrow>
   foldl (toggle_step ta start stop) s offsets = last (toggle_trace ta start stop s offsets)"
proof (induction offsets arbitrary: s)
  case Nil
  then show ?case by simp
next
  case (Cons a offsets)
  show ?case
  proof (cases "offsets = []")
    case True
    then show ?thesis by simp
  next
    case False
    then show ?thesis using Cons.IH [OF False] by (simp add: trace_Nil_iff)
  qed
qed

lemma toggle_none:
  assumes "sorted up" and "up \<noteq> []" and "start \<le> last up"
  shows "rises (progress toggle_init
           # map progress (toggle_trace play_none_none_none start stop toggle_init up)) = 1"
    and "progress (toggle_run play_none_none_none start stop up) = 1"
    and "progress (toggle_run play_none_none_none start stop (up @ down)) = 1"
proof -
  have l: "latched toggle_init" by (simp add: latched_def toggle_init_def)
  have p0: "progress toggle_init = 0" by (simp add: toggle_init_def)
  have b: "\<forall>y \<in> set up. progress toggle_init \<le> side start y" by (simp add: p0 side_def)
  note tr = trace_none [OF l assms(1) b, of stop]
  have "rises (0 # map (side start) up) = 1"
    using rises_from_zero [of up start] assms by simp
  then show "rises (progress toggle_init
           # map progress (toggle_trace play_none_none_none start stop toggle_init up)) = 1"
    unfolding tr p0 .
  have "progress (last (toggle_trace play_none_none_none start stop toggle_init up))
          = last (map progress (toggle_trace play_none_none_none start stop toggle_init up))"
    using assms(2) by (cases up) (simp_all add: last_map)
  also have "\<dots> = side start (last up)"
    unfolding tr using assms(2) by (simp add: last_map)
  finally show played: "progress (toggle_run play_none_none_none start stop up) = 1"
    using assms(2,3) by (simp add: toggle_run_def foldl_trace_last side_def)
  show "progress (toggle_run play_none_none_none start stop (up @ down)) = 1"
    using foldl_none_stays [OF played [unfolded toggle_run_def], of start stop down]
    by (simp add: toggle_run_def)
qed

lemma toggle_reverse:
  assumes "sorted up" and "up \<noteq> []" and "start \<le> last up"
    and "down \<noteq> []" and "last down < start"
  shows "rises (progress toggle_init
           # map progress (toggle_trace play_none_none_reverse start stop toggle_init up)) = 1"
    and "progress (toggle_run play_none_none_reverse start stop up) = 1"
    and "progress (toggle_run play_none_none_reverse start stop (up @ down)) = 0"
proof -
  have i: "settled start toggle_init" by (simp add: settled_def toggle_init_def)
  have p0: "progress toggle_init = 0" by (simp add: toggle_init_def)
  have "rises (0 # map (side start) up) = 1"
    using rises_from_zero [of up start] assms(1,2,3) by simp
  then show "rises (progress toggle_init
      # map progress (toggle_trace play_none_none_reverse start stop toggle_init up)) = 1"
    unfolding trace_reverse [OF i] p0 .
  show "progress (toggle_run play_none_none_reverse start stop up) = 1"
    unfolding toggle_run_def foldl_reverse [OF i assms(2)]
    using assms(3) by (simp add: side_def)
  have ne: "up @ down \<noteq> []" using assms(2) by simp
  show "progress (toggle_run play_none_none_reverse start stop (up @ down)) = 0"
    unfolding toggle_run_def foldl_reverse [OF i ne]
    using assms(4,5) by (simp add: side_def)
qed

text \<open>The helpers of lib/animations.ts all ask for the reversal.\<close>

lemma helpers_reverse:
  "tg_toggleActions (fadeInUp o1) = Some play_none_none_reverse"
  "tg_toggleActions (staggerFadeIn o2) = Some play_none_none_reverse"
  "tg_toggleActions (maskReveal o3) = Some play_none_none_reverse"
  "tg_toggleActions (counterAnimation_trigger o4) = Some play_none_none_reverse"
  by (simp_all add: fadeInUp_def staggerFadeIn_def maskReveal_def counterAnimation_trigger_def)

text \<open>
  Claim C2 as stated has every toggle-mode descriptor reverse when the scroll offset
  moves back above the start boundary. The separator animation of ImpactSection is a
  toggle-mode descriptor whose trigger gives a start and no \<open>toggleActions\<close>: with the
  start boundary at 150, it is played when the offset has increased from 0 to 300, and
  it is still played when the offset has gone back to 100.
\<close>

theorem toggle_separator_counterexample:
  "tg_toggleActions impact_separator = None
   \<and> progress (toggle_run (toggleActions_of impact_separator) 150 1000
        [0, 100, 200, 300]) = 1
   \<and> progress (toggle_run (toggleActions_of impact_separator) 150 1000
        ([0, 100, 200, 300] @ [250, 100])) = 1"
  by (simp add: toggleActions_of_def impact_separator_def nullish_def toggle_run_def
      toggle_init_def toggle_step_def position_of_def play_none_none_none_def)

text \<open>
  Claim C2, amended. While the scroll offset increases monotonically from before the
  region (the initial state) through the start boundary, the progress of a toggle-mode
  descriptor goes from 0 to 1 exactly once and rests at 1. When the offset afterwards
  moves back to before the start boundary, the progress of a descriptor whose trigger
  gives \<open>toggleActions: "play none none reverse"\<close> (as \<open>fadeInUp\<close>, \<open>staggerFadeIn\<close>,
  \<open>maskReveal\<close> and \<open>counterAnimation\<close> do) returns to 0, the state before the
  animation; the progress of a descriptor whose trigger gives no \<open>toggleActions\<close> (the
  separator animations) stays at 1.
\<close>

theorem toggle_reverse_amended:
  assumes "sorted up" and "up \<noteq> []" and "start \<le> last up"
    and "down \<noteq> []" and "last down < start"
  shows "(tg_toggleActions tw = Some play_none_none_reverse \<longrightarrow>
            rises (progress toggle_init
              # map progress (toggle_trace (toggleActions_of tw) start stop toggle_init up)) = 1
            \<and> progress (toggle_run (toggleActions_of tw) start stop up) = 1
            \<and> progress (toggle_run (toggleActions_of tw) start stop (up @ down)) = 0)
     \<and> (tg_toggleActions tw = None \<longrightarrow>
            rises (progress toggle_init
              # map progress (toggle_trace (toggleActions_of tw) start stop toggle_init up)) = 1
            \<and> progress (toggle_run (toggleActions_of tw) start stop up) = 1
            \<and> progress (toggle_run (toggleActions_of tw) start stop (up @ down)) = 1)"
proof -
  have r: "tg_toggleActions tw = Some play_none_none_reverse \<Longrightarrow>
      toggleActions_of tw = play_none_none_reverse"
    by (simp add: toggleActions_of_def nullish_def)
  have n: "tg_toggleActions tw = None \<Longrightarrow> toggleActions_of tw = play_none_none_none"
    by (simp add: toggleActions_of_def nullish_def)
  note R = toggle_reverse [OF assms] and N = toggle_none [OF assms(1,2,3)]
  show ?thesis using r n by (simp add: R N)
qed

theorem toggle_reverse_amended_witness:
  "progress (toggle_run
      (toggleActions_of (fadeInUp \<lparr>fu_duration = None, fu_delay = None, fu_start = None\<rparr>))
      150 1000 [0, 100, 200, 300]) = 1
   \<and> progress (toggle_run
        (toggleActions_of (fadeInUp \<lparr>fu_duration = None, fu_delay = None, fu_start = None\<rparr>))
        150 1000 ([0, 100, 200, 300] @ [250, 100])) = 0
   \<and> rises (progress toggle_init
        # map progress (toggle_trace (toggleActions_of impact_separator) 150 1000 toggle_init
            [0, 100, 200, 300])) = 1"
proof -
  have a: "tg_toggleActions (fadeInUp \<lparr>fu_duration = None, fu_delay = None, fu_start = None\<rparr>)
             = Some play_none_none_reverse"
    by (simp add: fadeInUp_def)
  have s: "tg_toggleActions impact_separator = None"
    by (simp add: impact_separator_def)
  have b: "sorted [0, 100, 200, 300 :: real]" "[0, 100, 200, 300 :: real] \<noteq> []"
    "(150::real) \<le> last [0, 100, 200, 300]" by simp_all
  have c: "[250, 100 :: real] \<noteq> []" "last [250, 100 :: real] < 150" by simp_all
  show ?thesis
    using toggle_reverse_amended [OF b c, of "fadeInUp \<lparr>fu_duration = None, fu_delay = None, fu_start = None\<rparr>" 1000]
      toggle_reverse_amended [OF b c, of impact_separator 1000] a s
    by simp
qed

section \<open>Scrubbed descriptors: the playhead follows the region's progress\<close>

lemma clamp01_range: "0 \<le> clamp01 x \<and> clamp01 x \<le> 1"
  by (simp add: clamp01_def)

lemma clamp01_id: "0 \<le> x \<Longrightarrow> x \<le> 1 \<Longrightarrow> clamp01 x = x"
  by (simp add: clamp01_def)

lemma clamp01_lipschitz: "\<bar>clamp01 x - clamp01 y\<bar> \<le> \<bar>x - y\<bar>"
  by (simp add: clamp01_def max_def min_def)

lemma region_progress_lipschitz:
  assumes "start < stop"
  shows "\<bar>region_progress start stop y1 - region_progress start stop y2\<bar>
           \<le> \<bar>y1 - y2\<bar> / (stop - start)"
proof -
  have d: "\<bar>stop - start\<bar> = stop - start" using assms by simp
  have ne: "stop \<noteq> start" using assms by simp
  have "(y1 - start) / (stop - start) - (y2 - start) / (stop - start)
          = (y1 - y2) / (stop - start)"
    by (simp add: diff_divide_distrib)
  then have "\<bar>(y1 - start) / (stop - start) - (y2 - start) / (stop - start)\<bar>
          = \<bar>y1 - y2\<bar> / (stop - start)"
    by (simp only: abs_divide d)
  then show ?thesis
    using clamp01_lipschitz [of "(y1 - start) / (stop - start)" "(y2 - start) / (stop - start)"]
    by (simp only: region_progress_def ne if_False)
qed

text \<open>The ease of the catching up: its ends, its range in between, its value halfway.\<close>

lemma expo_in_pos: "0 < q \<Longrightarrow> q \<le> 1 \<Longrightarrow> 0 < expo_in q"
proof -
  assume q: "0 < q" "q \<le> 1"
  have "0 < 2 powr (10 * (q - 1)) * q" using q by simp
  moreover have "0 \<le> q ^ 6 * (1 - q)" using q by simp
  ultimately show ?thesis by (simp add: expo_in_def)
qed

lemma expo_in_less_1: "0 < q \<Longrightarrow> q < 1 \<Longrightarrow> expo_in q < 1"
proof -
  assume q: "0 < q" "q < 1"
  have "2 powr (10 * (q - 1)) < 2 powr 0"
    using q by (intro powr_less_mono) simp_all
  then have "2 powr (10 * (q - 1)) < 1" by simp
  then have a: "2 powr (10 * (q - 1)) * q < 1 * q"
    using q by (intro mult_strict_right_mono) simp_all
  have "q ^ 6 \<le> 1" using q by (simp add: power_le_one)
  then have "q ^ 6 * (1 - q) \<le> 1 * (1 - q)"
    using q by (intro mult_right_mono) simp_all
  with a show ?thesis by (simp add: expo_in_def)
qed

lemma expo_in_1: "expo_in 1 = 1"
  by (simp add: expo_in_def)

lemma catch_up_ease_half: "catch_up_ease (1 / 2) = 125 / 128"
proof -
  have p: "(2::real) powr (- 5) = 1 / 32"
    by (simp add: powr_minus_divide)
  have a: "10 * ((1 / 2 :: real) - 1) = - 5" by simp
  have "expo_in (1 / 2) = 1 / 32 * (1 / 2) + (1 / 2) ^ 6 * (1 - 1 / 2)"
    unfolding expo_in_def a p ..
  also have "\<dots> = 3 / 128" by (simp add: power_divide)
  finally show ?thesis by (simp add: catch_up_ease_def)
qed

text \<open>
  A playhead scrubbed with a number of seconds: what is left of its way to the target
  is the way it had to go, times the ease-in at the remaining share of the time.
\<close>

lemma playhead_remaining:
  assumes "0 \<le> elapsed" "elapsed < secs"
  shows "target - playhead (ScrubSeconds secs) p0 target elapsed
           = (target - p0) * expo_in (1 - elapsed / secs)"
  using assms by (simp add: playhead_def catch_up_ease_def algebra_simps)

lemma playhead_lags:
  assumes "0 \<le> elapsed" "elapsed < secs" "p0 \<noteq> target"
  shows "playhead (ScrubSeconds secs) p0 target elapsed \<noteq> target"
proof -
  have s: "0 < secs" using assms by simp
  have "0 < 1 - elapsed / secs" "1 - elapsed / secs \<le> 1" using assms s by simp_all
  then have "0 < expo_in (1 - elapsed / secs)" by (rule expo_in_pos)
  then have "(target - p0) * expo_in (1 - elapsed / secs) \<noteq> 0" using assms(3) by simp
  then show ?thesis using playhead_remaining [OF assms(1,2), of target p0] by auto
qed

lemma playhead_closer:
  assumes "0 < elapsed" "elapsed < secs" "p0 \<noteq> target"
  shows "\<bar>target - playhead (ScrubSeconds secs) p0 target elapsed\<bar> < \<bar>target - p0\<bar>"
proof -
  have s: "0 < secs" using assms by simp
  have q: "0 < 1 - elapsed / secs" "1 - elapsed / secs < 1" using assms s by simp_all
  have e: "0 < expo_in (1 - elapsed / secs)" "expo_in (1 - elapsed / secs) < 1"
    using q expo_in_pos [of "1 - elapsed / secs"] expo_in_less_1 [of "1 - elapsed / secs"]
    by simp_all
  have "0 \<le> elapsed" using assms by simp
  from playhead_remaining [OF this assms(2), of target p0]
  have "\<bar>target - playhead (ScrubSeconds secs) p0 target elapsed\<bar>
          = \<bar>target - p0\<bar> * expo_in (1 - elapsed / secs)"
    using e by (simp add: abs_mult)
  also have "\<dots> < \<bar>target - p0\<bar> * 1"
    using e assms(3) by (intro mult_strict_left_mono) simp_all
  finally show ?thesis by simp
qed

lemma playhead_start: "0 < secs \<Longrightarrow> playhead (ScrubSeconds secs) p0 target 0 = p0"
  by (simp add: playhead_def catch_up_ease_def expo_in_1)

lemma playhead_done:
  "secs \<le> elapsed \<Longrightarrow> playhead (ScrubSeconds secs) p0 target elapsed = target"
  by (simp add: playhead_def)

lemma scrub_seconds_lag:
  assumes "sc = ScrubSeconds secs" "0 < secs"
  shows "playhead sc p0 target 0 = p0
     \<and> (0 \<le> elapsed \<longrightarrow> elapsed < secs \<longrightarrow> p0 \<noteq> target \<longrightarrow>
          playhead sc p0 target elapsed \<noteq> target)
     \<and> (0 < elapsed \<longrightarrow> elapsed < secs \<longrightarrow> p0 \<noteq> target \<longrightarrow>
          \<bar>target - playhead sc p0 target elapsed\<bar> < \<bar>target - p0\<bar>)
     \<and> (secs \<le> elapsed \<longrightarrow> playhead sc p0 target elapsed = target)"
  unfolding assms(1)
  using playhead_start [OF assms(2)] playhead_lags playhead_closer playhead_done
  by blast

lemma scrub_settings:
  "sw_scrub (parallax o1) = ScrubSeconds 1"
  "sw_scrub (horizontalScroll cw sw o2) = ScrubSeconds 1"
  "sw_scrub (slowZoom o3) = ScrubSeconds 2"
  "sw_scrub world_overlay = ScrubTrue"
  by (simp_all add: parallax_def horizontalScroll_def Let_def slowZoom_def world_overlay_def)

text \<open>
  Claim C3 as stated binds the progress of every scrubbed descriptor directly to the
  scroll offset. \<open>parallax\<close> and \<open>horizontalScroll\<close> are configured with \<open>scrub: 1\<close>,
  \<open>slowZoom\<close> with \<open>scrub: 2\<close>: at the frame on which the scroll offset is seen at the end
  of the region 0..1000, with the playhead at 0 before, the region's progress is 1 and
  the playhead of each is still at 0; one second later that of \<open>slowZoom\<close> is at
  125/128.
\<close>

theorem scrub_counterexample:
  "region_progress 0 1000 1000 = 1
   \<and> playhead (sw_scrub (slowZoom \<lparr>sz_scale = None, sz_duration = None\<rparr>)) 0
        (region_progress 0 1000 1000) 0 = 0
   \<and> playhead (sw_scrub (slowZoom \<lparr>sz_scale = None, sz_duration = None\<rparr>)) 0
        (region_progress 0 1000 1000) 1 = 125 / 128
   \<and> playhead (sw_scrub (parallax \<lparr>px_yPercent = None, px_start = None, px_end = None\<rparr>)) 0
        (region_progress 0 1000 1000) 0 = 0
   \<and> playhead (sw_scrub (horizontalScroll 1200 3000 \<lparr>hs_ease = None, hs_end = None\<rparr>)) 0
        (region_progress 0 1000 1000) 0 = 0"
proof -
  have r: "region_progress 0 1000 1000 = 1"
    by (simp add: region_progress_def clamp01_def)
  have half: "playhead (ScrubSeconds 2) 0 1 1 = 125 / 128"
    using catch_up_ease_half by (simp add: playhead_def)
  show ?thesis
    unfolding r scrub_settings using half by (simp add: playhead_start)
qed

text \<open>
  Claim C3, amended. For a scrub region with \<open>start < end\<close>: the region's progress lies
  in 0..1, equals \<open>(offset - start)/(end - start)\<close> for every offset within the region,
  and changes by at most \<open>|\<Delta>offset| / (end - start)\<close>, so it has no jumps. A descriptor
  configured with \<open>scrub: true\<close> (the overlay of WorldSection) has its playhead at the
  region's progress at once. A descriptor configured with a number of seconds
  (\<open>parallax\<close> and \<open>horizontalScroll\<close>: 1, \<open>slowZoom\<close>: 2) lags: at the moment the offset
  changes its playhead is still where it was; for less than that many seconds after the
  change the playhead has not reached the region's progress (when it was not there
  already) and, once time has passed, is nearer to it than it was; when that many
  seconds have passed it equals the region's progress. So scrubbing back reverses
  partial progress with that lag, not instantly.
\<close>

theorem scrub_progress_amended:
  assumes "start < stop" and "target = region_progress start stop offset"
  shows "0 \<le> target \<and> target \<le> 1
     \<and> (start \<le> offset \<longrightarrow> offset \<le> stop \<longrightarrow> target = (offset - start) / (stop - start))
     \<and> \<bar>region_progress start stop y1 - region_progress start stop y2\<bar>
          \<le> \<bar>y1 - y2\<bar> / (stop - start)
     \<and> playhead (sw_scrub world_overlay) p0 target elapsed = target
     \<and> (playhead (sw_scrub (parallax o1)) p0 target 0 = p0
        \<and> (0 \<le> elapsed \<longrightarrow> elapsed < 1 \<longrightarrow> p0 \<noteq> target \<longrightarrow>
             playhead (sw_scrub (parallax o1)) p0 target elapsed \<noteq> target)
        \<and> (0 < elapsed \<longrightarrow> elapsed < 1 \<longrightarrow> p0 \<noteq> target \<longrightarrow>
             \<bar>target - playhead (sw_scrub (parallax o1)) p0 target elapsed\<bar>
               < \<bar>target - p0\<bar>)
        \<and> (1 \<le> elapsed \<longrightarrow>
             playhead (sw_scrub (parallax o1)) p0 target elapsed = target))
     \<and> (playhead (sw_scrub (horizontalScroll cw sw o2)) p0 target 0 = p0
        \<and> (0 \<le> elapsed \<longrightarrow> elapsed < 1 \<longrightarrow> p0 \<noteq> target \<longrightarrow>
             playhead (sw_scrub (horizontalScroll cw sw o2)) p0 target elapsed \<noteq> target)
        \<and> (0 < elapsed \<longrightarrow> elapsed < 1 \<longrightarrow> p0 \<noteq> target \<longrightarrow>
             \<bar>target - playhead (sw_scrub (horizontalScroll cw sw o2)) p0 target elapsed\<bar>
               < \<bar>target - p0\<bar>)
        \<and> (1 \<le> elapsed \<longrightarrow>
             playhead (sw_scrub (horizontalScroll cw sw o2)) p0 target elapsed = target))
     \<and> (playhead (sw_scrub (slowZoom o3)) p0 target 0 = p0
        \<and> (0 \<le> elapsed \<longrightarrow> elapsed < 2 \<longrightarrow> p0 \<noteq> target \<longrightarrow>
             playhead (sw_scrub (slowZoom o3)) p0 target elapsed \<noteq> target)
        \<and> (0 < elapsed \<longrightarrow> elapsed < 2 \<longrightarrow> p0 \<noteq> target \<longrightarrow>
             \<bar>target - playhead (sw_scrub (slowZoom o3)) p0 target elapsed\<bar>
               < \<bar>target - p0\<bar>)
        \<and> (2 \<le> elapsed \<longrightarrow>
             playhead (sw_scrub (slowZoom o3)) p0 target elapsed = target))"
proof -
  have ne: "stop \<noteq> start" using assms(1) by simp
  have rng: "0 \<le> target \<and> target \<le> 1"
    unfolding assms(2) by (simp add: region_progress_def clamp01_range)
  have inside: "start \<le> offset \<longrightarrow> offset \<le> stop \<longrightarrow>
      target = (offset - start) / (stop - start)"
    unfolding assms(2) using assms(1) by (simp add: region_progress_def clamp01_id)
  have direct: "playhead (sw_scrub world_overlay) p0 target elapsed = target"
    by (simp add: scrub_settings playhead_def)
  note lag1 = scrub_seconds_lag [OF scrub_settings(1), of o1 p0 target elapsed]
  note lag1h = scrub_seconds_lag [OF scrub_settings(2), of cw sw o2 p0 target elapsed]
  note lag2 = scrub_seconds_lag [OF scrub_settings(3), of o3 p0 target elapsed]
  show ?thesis
    using rng inside region_progress_lipschitz [OF assms(1), of y1 y2] direct lag1 lag1h lag2
    by simp
qed

theorem scrub_progress_amended_witness:
  "region_progress 0 1000 250 = 1 / 4
   \<and> playhead (sw_scrub (slowZoom \<lparr>sz_scale = None, sz_duration = None\<rparr>)) 0 (1 / 4) 0 = 0
   \<and> playhead (sw_scrub (slowZoom \<lparr>sz_scale = None, sz_duration = None\<rparr>)) 0 (1 / 4) 1
        \<noteq> 1 / 4
   \<and> playhead (sw_scrub (slowZoom \<lparr>sz_scale = None, sz_duration = None\<rparr>)) 0 (1 / 4) 1
        = 125 / 512
   \<and> playhead (sw_scrub (slowZoom \<lparr>sz_scale = None, sz_duration = None\<rparr>)) 0 (1 / 4) 2
        = 1 / 4
   \<and> playhead (sw_scrub (parallax \<lparr>px_yPercent = None, px_start = None, px_end = None\<rparr>))
        0 (1 / 4) (1 / 2) \<noteq> 1 / 4"
proof -
  have h: "(0::real) < 1000" by simp
  have r: "region_progress 0 1000 250 = 1 / 4"
    by (simp add: region_progress_def clamp01_def)
  note z = scrub_progress_amended [OF h r [symmetric]]
  have a: "playhead (sw_scrub (slowZoom \<lparr>sz_scale = None, sz_duration = None\<rparr>)) 0 (1 / 4) 0
        = 0"
    using z [where ?p0.0 = 0 and ?o3.0 = "\<lparr>sz_scale = None, sz_duration = None\<rparr>"] by simp
  have b: "playhead (sw_scrub (slowZoom \<lparr>sz_scale = None, sz_duration = None\<rparr>)) 0 (1 / 4) 1
        \<noteq> 1 / 4"
    using z [where ?p0.0 = 0 and elapsed = 1
        and ?o3.0 = "\<lparr>sz_scale = None, sz_duration = None\<rparr>"] by simp
  have v: "playhead (sw_scrub (slowZoom \<lparr>sz_scale = None, sz_duration = None\<rparr>)) 0 (1 / 4) 1
        = 125 / 512"
    using catch_up_ease_half by (simp add: scrub_settings playhead_def)
  have c: "playhead (sw_scrub (slowZoom \<lparr>sz_scale = None, sz_duration = None\<rparr>)) 0 (1 / 4) 2
        = 1 / 4"
    using z [where ?p0.0 = 0 and elapsed = 2
        and ?o3.0 = "\<lparr>sz_scale = None, sz_duration = None\<rparr>"] by simp
  have d: "playhead (sw_scrub (parallax \<lparr>px_yPercent = None, px_start = None, px_end = None\<rparr>))
        0 (1 / 4) (1 / 2) \<noteq> 1 / 4"
    using z [where ?p0.0 = 0 and elapsed = "1 / 2"
        and ?o1.0 = "\<lparr>px_yPercent = None, px_start = None, px_end = None\<rparr>"] by simp
  show ?thesis by (intro conjI) (rule r a b v c d)+
qed

end
